theory Spec2Isabelle
  imports Main "HOL-Library.Multiset"
begin

section \<open>Python values\<close>

text \<open>
  A Python \<^verbatim>\<open>str\<close> is a sequence of Unicode code points, so \<open>len\<close>, indexing and the
  regular-expression engine all work on code points. It is modelled as a list of
  natural numbers; \<open>ustr\<close> turns an ASCII literal into that representation.
\<close>

type_synonym pystr = "nat list"

definition ustr :: "string \<Rightarrow> pystr" where
  "ustr s = map of_char s"

text \<open>
  The values a comment dictionary holds in this program: \<^verbatim>\<open>None\<close>, integers and strings.
  A dictionary is a finite map from (ASCII) keys to such values.
\<close>

datatype pyval = PNone | PInt int | PStr pystr

datatype py_error = AttributeError | TypeError | ValueError

type_synonym pydict = "string \<rightharpoonup> pyval"

text \<open>\<^verbatim>\<open>d.get(k)\<close> and \<^verbatim>\<open>d.get(k, default)\<close>.\<close>

definition py_get :: "pydict \<Rightarrow> string \<Rightarrow> pyval" where
  "py_get d k = (case d k of None \<Rightarrow> PNone | Some v \<Rightarrow> v)"

definition py_get_default :: "pydict \<Rightarrow> string \<Rightarrow> pyval \<Rightarrow> pyval" where
  "py_get_default d k dflt = (case d k of None \<Rightarrow> dflt | Some v \<Rightarrow> v)"

text \<open>Truth value of an object, and \<^verbatim>\<open>a or b\<close>.\<close>

fun truthy :: "pyval \<Rightarrow> bool" where
  "truthy PNone = False"
| "truthy (PInt n) = (n \<noteq> 0)"
| "truthy (PStr s) = (s \<noteq> [])"

definition py_or :: "pyval \<Rightarrow> pyval \<Rightarrow> pyval" where
  "py_or a b = (if truthy a then a else b)"

section \<open>Character classes\<close>

text \<open>
  The classification of code points comes from the Unicode character database of the
  Python runtime, which is not part of the repository. For ASCII (code points below
  128) the classes are written out; beyond ASCII they are taken from the tables of
  a \<open>pyrt\<close> record, a parameter of every function that classifies characters.
  The same record carries the two whole-string operations whose result on non-ASCII
  text depends on those tables: \<^verbatim>\<open>str.lower\<close> and \<^verbatim>\<open>int(str)\<close>.
\<close>

record pyrt =
  u_isspace :: "nat \<Rightarrow> bool"
  u_isalpha :: "nat \<Rightarrow> bool"
  u_isdecimal :: "nat \<Rightarrow> bool"
  u_isdigit :: "nat \<Rightarrow> bool"
  u_isnumeric :: "nat \<Rightarrow> bool"
  u_lower :: "pystr \<Rightarrow> pystr"
  u_ci :: "nat \<Rightarrow> nat \<Rightarrow> bool"
  u_int :: "pystr \<Rightarrow> int option"

definition is_ascii :: "nat \<Rightarrow> bool" where
  "is_ascii c = (c < 128)"

text \<open>Whitespace as \<^verbatim>\<open>str.strip()\<close> sees it: TAB..CR, FS..US and the space.\<close>

definition isspace :: "pyrt \<Rightarrow> nat \<Rightarrow> bool" where
  "isspace U c =
     (if is_ascii c then (9 \<le> c \<and> c \<le> 13) \<or> (28 \<le> c \<and> c \<le> 32) else u_isspace U c)"

definition ascii_digit :: "nat \<Rightarrow> bool" where
  "ascii_digit c = (48 \<le> c \<and> c \<le> 57)"

definition isalpha :: "pyrt \<Rightarrow> nat \<Rightarrow> bool" where
  "isalpha U c =
     (if is_ascii c then (65 \<le> c \<and> c \<le> 90) \<or> (97 \<le> c \<and> c \<le> 122) else u_isalpha U c)"

definition isdecimal :: "pyrt \<Rightarrow> nat \<Rightarrow> bool" where
  "isdecimal U c = (if is_ascii c then ascii_digit c else u_isdecimal U c)"

definition isdigit :: "pyrt \<Rightarrow> nat \<Rightarrow> bool" where
  "isdigit U c = (if is_ascii c then ascii_digit c else u_isdigit U c)"

definition isnumeric :: "pyrt \<Rightarrow> nat \<Rightarrow> bool" where
  "isnumeric U c = (if is_ascii c then ascii_digit c else u_isnumeric U c)"

text \<open>
  The regular-expression class \<^verbatim>\<open>\w\<close> on a \<^verbatim>\<open>str\<close> pattern: alphanumeric (alphabetic,
  decimal, digit or numeric) or the underscore. \<^verbatim>\<open>\d\<close> is \<open>isdecimal\<close>.
\<close>

definition is_word :: "pyrt \<Rightarrow> nat \<Rightarrow> bool" where
  "is_word U c = (isalpha U c \<or> isdecimal U c \<or> isdigit U c \<or> isnumeric U c \<or> c = 95)"

section \<open>String methods\<close>

definition py_strip :: "pyrt \<Rightarrow> pystr \<Rightarrow> pystr" where
  "py_strip U s = rev (dropWhile (isspace U) (rev (dropWhile (isspace U) s)))"

definition ascii_lower :: "nat \<Rightarrow> nat" where
  "ascii_lower c = (if 65 \<le> c \<and> c \<le> 90 then c + 32 else c)"

definition py_lower :: "pyrt \<Rightarrow> pystr \<Rightarrow> pystr" where
  "py_lower U s = (if list_all is_ascii s then map ascii_lower s else u_lower U s)"

text \<open>\<^verbatim>\<open>s.isalpha()\<close> and \<^verbatim>\<open>s.isdigit()\<close>: every character is in the class and there is one.\<close>

definition str_isalpha :: "pyrt \<Rightarrow> pystr \<Rightarrow> bool" where
  "str_isalpha U s = (s \<noteq> [] \<and> list_all (isalpha U) s)"

definition str_isdigit :: "pyrt \<Rightarrow> pystr \<Rightarrow> bool" where
  "str_isdigit U s = (s \<noteq> [] \<and> list_all (isdigit U) s)"

text \<open>
  \<^verbatim>\<open>x.strip()\<close> on a dictionary value: only a string has the method.
\<close>

definition strip_val :: "pyrt \<Rightarrow> pyval \<Rightarrow> py_error + pystr" where
  "strip_val U v = (case v of PStr s \<Rightarrow> Inr (py_strip U s) | _ \<Rightarrow> Inl AttributeError)"

section \<open>Conversion to int\<close>

text \<open>
  \<^verbatim>\<open>int(s)\<close> on a string in base ten: surrounding whitespace, an optional sign, then
  digits, where single underscores may separate digits. \<open>parse_digits\<close> reads the
  digits with the value so far and whether the previous character was a digit.
\<close>

fun parse_digits :: "nat \<Rightarrow> bool \<Rightarrow> pystr \<Rightarrow> nat option" where
  "parse_digits acc prev_digit [] = (if prev_digit then Some acc else None)"
| "parse_digits acc prev_digit (c # s) =
     (if ascii_digit c then parse_digits (10 * acc + (c - 48)) True s
      else if c = 95 \<and> prev_digit then parse_digits acc False s
      else None)"

definition parse_int :: "pystr \<Rightarrow> int option" where
  "parse_int s =
     (case s of
        [] \<Rightarrow> None
      | c # r \<Rightarrow>
          if c = 45 then map_option (\<lambda>n. - int n) (parse_digits 0 False r)
          else if c = 43 then map_option int (parse_digits 0 False r)
          else map_option int (parse_digits 0 False s))"

definition c_space :: "nat \<Rightarrow> bool" where
  "c_space c = ((9 \<le> c \<and> c \<le> 13) \<or> c = 32)"

text \<open>
  The conversion is written out for short ASCII strings without the separators
  FS..US; for any other string (non-ASCII digits and spaces, the length limit on
  digit strings) the result is the runtime's, \<open>u_int\<close>, with \<open>None\<close> for ValueError.
\<close>

definition plain_text :: "pystr \<Rightarrow> bool" where
  "plain_text s = (length s \<le> 640 \<and> list_all (\<lambda>c. is_ascii c \<and> \<not> (28 \<le> c \<and> c \<le> 31)) s)"

definition int_of_str :: "pyrt \<Rightarrow> pystr \<Rightarrow> py_error + int" where
  "int_of_str U s =
     (case (if plain_text s
            then parse_int (rev (dropWhile c_space (rev (dropWhile c_space s))))
            else u_int U s) of
        None \<Rightarrow> Inl ValueError
      | Some n \<Rightarrow> Inr n)"

definition py_int :: "pyrt \<Rightarrow> pyval \<Rightarrow> py_error + int" where
  "py_int U v =
     (case v of PNone \<Rightarrow> Inl TypeError | PInt n \<Rightarrow> Inr n | PStr s \<Rightarrow> int_of_str U s)"

section \<open>Regular-expression searches\<close>

text \<open>
  Most patterns of the program are a fixed-length sequence of character tests (a
  literal, a literal matched case-insensitively, a character class). Such a pattern
  is a list of predicates; \<open>match_here\<close> matches it at the start of the subject and
  \<open>re_search\<close> at any position, as \<^verbatim>\<open>re.search\<close> does.
\<close>

type_synonym pattern = "(nat \<Rightarrow> bool) list"

fun match_here :: "pattern \<Rightarrow> pystr \<Rightarrow> bool" where
  "match_here [] s = True"
| "match_here (p # ps) [] = False"
| "match_here (p # ps) (c # s) = (p c \<and> match_here ps s)"

fun re_search :: "pattern \<Rightarrow> pystr \<Rightarrow> bool" where
  "re_search ps [] = match_here ps []"
| "re_search ps (c # s) = (match_here ps (c # s) \<or> re_search ps s)"

definition lit :: "string \<Rightarrow> pattern" where
  "lit s = map (\<lambda>p c. c = p) (ustr s)"

text \<open>
  A literal under \<^verbatim>\<open>re.I\<close>; the literals of the program are lower-case ASCII. An ASCII
  subject character matches when its lower case is the pattern character; whether
  a non-ASCII character does (such as the long s for s) is the runtime's \<open>u_ci\<close>.
\<close>

definition ci_eq :: "pyrt \<Rightarrow> nat \<Rightarrow> nat \<Rightarrow> bool" where
  "ci_eq U p c = (if is_ascii c then ascii_lower c = p else u_ci U p c)"

definition lit_ci :: "pyrt \<Rightarrow> string \<Rightarrow> pattern" where
  "lit_ci U s = map (ci_eq U) (ustr s)"

text \<open>\<^verbatim>\<open>https?://|www\.\<close>\<close>

definition re_url :: "pystr \<Rightarrow> bool" where
  "re_url s =
     (re_search (lit ''http://'') s \<or> re_search (lit ''https://'') s \<or> re_search (lit ''www.'') s)"

text \<open>
  \<^verbatim>\<open>\b\d{7,}\b\<close>: a word boundary at \<open>i\<close>, decimal digits from \<open>i\<close> up to \<open>j\<close>, at least
  seven of them, and a word boundary at \<open>j\<close>. There is a boundary at a position when
  exactly one of the characters before and after it is a word character (none at
  the ends of the subject counts as not a word character).
\<close>

definition word_boundary :: "pyrt \<Rightarrow> pystr \<Rightarrow> nat \<Rightarrow> bool" where
  "word_boundary U s i =
     ((0 < i \<and> is_word U (s ! (i - 1))) \<noteq> (i < length s \<and> is_word U (s ! i)))"

definition re_long_number :: "pyrt \<Rightarrow> pystr \<Rightarrow> bool" where
  "re_long_number U s =
     list_ex (\<lambda>i. list_ex (\<lambda>j. i + 7 \<le> j \<and> word_boundary U s i
                                 \<and> list_all (\<lambda>k. isdecimal U (s ! k)) [i..<j]
                                 \<and> word_boundary U s j)
                           [0..<Suc (length s)])
             [0..<Suc (length s)]"

text \<open>\<^verbatim>\<open>([!?.]){3,}\<close>\<close>

definition is_punct :: "nat \<Rightarrow> bool" where
  "is_punct c = (c = 33 \<or> c = 63 \<or> c = 46)"

definition re_punct :: "pystr \<Rightarrow> bool" where
  "re_punct s = re_search (replicate 3 is_punct) s"

text \<open>
  \<^verbatim>\<open>(.)\1{6,}\<close>: some character other than the newline, followed by itself six more
  times.
\<close>

fun re_repeated :: "pystr \<Rightarrow> bool" where
  "re_repeated [] = False"
| "re_repeated (c # s) =
     ((c \<noteq> 10 \<and> match_here (replicate 6 (\<lambda>d. d = c)) s) \<or> re_repeated s)"

text \<open>\<^verbatim>\<open>[\U0001F300-\U0001F6FF\U0001F900-\U0001F9FF\u2600-\u27BF]\<close>\<close>

definition is_emoji :: "nat \<Rightarrow> bool" where
  "is_emoji c =
     ((127744 \<le> c \<and> c \<le> 128767) \<or> (129280 \<le> c \<and> c \<le> 129535) \<or> (9728 \<le> c \<and> c \<le> 10175))"

text \<open>\<^verbatim>\<open>follow me|check my profile|subscribe|dm for|contact me|visit my\<close> with \<^verbatim>\<open>re.I\<close>\<close>

definition re_promo :: "pyrt \<Rightarrow> pystr \<Rightarrow> bool" where
  "re_promo U s =
     (re_search (lit_ci U ''follow me'') s \<or> re_search (lit_ci U ''check my profile'') s
      \<or> re_search (lit_ci U ''subscribe'') s \<or> re_search (lit_ci U ''dm for'') s
      \<or> re_search (lit_ci U ''contact me'') s \<or> re_search (lit_ci U ''visit my'') s)"

text \<open>\<^verbatim>\<open>user\d{2,}\<close> with \<^verbatim>\<open>re.I\<close>\<close>

definition re_user :: "pyrt \<Rightarrow> pystr \<Rightarrow> bool" where
  "re_user U s = re_search (lit_ci U ''user'' @ [isdecimal U, isdecimal U]) s"

text \<open>\<^verbatim>\<open>(bot|spam|free|promo)\<close> with \<^verbatim>\<open>re.I\<close>\<close>

definition re_botname :: "pyrt \<Rightarrow> pystr \<Rightarrow> bool" where
  "re_botname U s =
     (re_search (lit_ci U ''bot'') s \<or> re_search (lit_ci U ''spam'') s
      \<or> re_search (lit_ci U ''free'') s \<or> re_search (lit_ci U ''promo'') s)"

section \<open>The analyzer\<close>

text \<open>
  The language detector is the external \<^verbatim>\<open>langdetect.detect\<close>: a parameter \<open>detect\<close>,
  with \<open>None\<close> where it raises \<^verbatim>\<open>LangDetectException\<close>.
\<close>

definition detect_language :: "(pystr \<Rightarrow> pystr option) \<Rightarrow> pystr \<Rightarrow> pystr" where
  "detect_language detect txt = (case detect txt of None \<Rightarrow> ustr ''unknown'' | Some l \<Rightarrow> l)"

record analysis =
  author :: pystr
  "text" :: pystr
  platform :: pyval
  publishedAt :: pyval
  likeCount :: int
  score :: int
  verdict :: pystr
  reasons :: "pystr list"
  language :: pystr

definition reason_url :: pystr where
  "reason_url = ustr ''Contains a URL or web link (common in spam).''"

definition reason_number :: pystr where
  "reason_number = ustr ''Contains a long numeric sequence (could be phone/ID).''"

definition reason_punct :: pystr where
  "reason_punct = ustr ''Excessive punctuation or repeated characters.''"

definition reason_emoji :: pystr where
  "reason_emoji = ustr ''High emoji density (can indicate low-effort engagement).''"

definition reason_short :: pystr where
  "reason_short = ustr ''Very short or generic praise; often low-effort or bot-like.''"

definition reason_promo :: pystr where
  "reason_promo = ustr ''Self-promotional call-to-action (common spam).''"

text \<open>The dash of this message is U+2014.\<close>

definition reason_likes :: pystr where
  "reason_likes = ustr ''High likes '' @ [8212] @ ustr '' social traction suggests authenticity.''"

definition reason_digits :: pystr where
  "reason_digits = ustr ''Author name contains many digits / generic pattern (possible bot).''"

definition reason_shortname :: pystr where
  "reason_shortname = ustr ''Suspiciously short username (could be fake).''"

definition reason_botname :: pystr where
  "reason_botname = ustr ''Username contains bot/promo keywords.''"

definition reason_lang :: pystr where
  "reason_lang = ustr ''Language could not be reliably detected.''"

definition reason_unexpected :: pystr where
  "reason_unexpected = ustr ''Short comment in an unexpected language for this post (weak signal).''"

text \<open>
  The generic praise of rule 5; the last two are the thumbs-up (U+1F44D) and the
  fire (U+1F525).
\<close>

definition generic_praise :: "pystr list" where
  "generic_praise = [ustr ''nice'', ustr ''good'', ustr ''great'', [128077], [128293]]"

text \<open>
  The state of the scoring is the pair of \<^verbatim>\<open>score\<close> and \<^verbatim>\<open>reasons\<close>. Most rules have the
  shape \<^verbatim>\<open>if cond: score -= d; reasons.append(r)\<close>, which is \<open>fire\<close>.
\<close>

type_synonym scoring = "int \<times> pystr list"

definition fire :: "bool \<Rightarrow> int \<Rightarrow> pystr \<Rightarrow> scoring \<Rightarrow> scoring" where
  "fire cond delta reason st = (if cond then (fst st + delta, snd st @ [reason]) else st)"

text \<open>
  The rules of \<^verbatim>\<open>analyze_comment\<close>, from \<^verbatim>\<open>score = 60\<close> to the line before the clamp, on
  the values read from the comment. The result is the scoring state before the clamp
  and the language.
\<close>

definition apply_rules ::
  "pyrt \<Rightarrow> (pystr \<Rightarrow> pystr option) \<Rightarrow> pystr \<Rightarrow> pystr \<Rightarrow> int \<Rightarrow> pyval \<Rightarrow> scoring \<times> pystr"
where
  "apply_rules U detect txt auth like plat =
     (let st = (60, []);
          st = fire (re_url txt) (- 35) reason_url st;
          st = fire (re_long_number U txt) (- 10) reason_number st;
          st = fire (re_punct txt \<or> re_repeated txt) (- 8) reason_punct st;
          emoji_count = length (filter is_emoji txt);
          st = fire (4 \<le> emoji_count) (- 6) reason_emoji st;
          st = fire (length txt \<le> 4 \<or> py_lower U txt \<in> set generic_praise) (- 12) reason_short st;
          st = fire (re_promo U txt) (- 30) reason_promo st;
          st = (if like = 0 then (fst st - 4, snd st)
                else if 25 \<le> like then (fst st + 10, snd st @ [reason_likes])
                else st);
          st = (if auth \<noteq> [] then
                  (let digits = length (filter (isdigit U) auth);
                       st = fire (3 \<le> digits \<or> re_user U auth) (- 10) reason_digits st;
                       st = fire (length auth \<le> 2 \<and> str_isalpha U auth) (- 6) reason_shortname st;
                       st = fire (re_botname U auth) (- 20) reason_botname st
                   in st)
                else st);
          lang = (if txt \<noteq> [] then detect_language detect txt else ustr ''unknown'');
          st = (if lang = ustr ''unknown'' then (fst st, snd st @ [reason_lang])
                else if plat \<in> {PStr (ustr ''facebook''), PStr (ustr ''instagram'')}
                        \<and> lang \<notin> {ustr ''en'', ustr ''unknown''}
                     then (if length txt < 20 then (fst st - 6, snd st @ [reason_unexpected]) else st)
                else st)
      in (st, lang))"

text \<open>\<^verbatim>\<open>max(0, min(100, score))\<close> and the chain of thresholds after it.\<close>

definition clamp_score :: "int \<Rightarrow> int" where
  "clamp_score s = max 0 (min 100 s)"

definition verdict_of :: "int \<Rightarrow> pystr" where
  "verdict_of s =
     (if 60 \<le> s then ustr ''real''
      else if 40 \<le> s then ustr ''likely-real''
      else if 20 \<le> s then ustr ''likely-fake''
      else ustr ''fake'')"

text \<open>
  The first four lines of \<^verbatim>\<open>analyze_comment\<close> read the comment. They can raise:
  \<^verbatim>\<open>.strip()\<close> on a value that is not a string, \<^verbatim>\<open>int()\<close> on a string that is not a number.
\<close>

definition read_fields :: "pyrt \<Rightarrow> pydict \<Rightarrow> py_error + (pystr \<times> pystr \<times> int \<times> pyval)" where
  "read_fields U comment =
     (case strip_val U (py_or (py_get comment ''text'') (PStr [])) of
        Inl e \<Rightarrow> Inl e
      | Inr txt \<Rightarrow>
     (case strip_val U (py_or (py_get comment ''author'') (PStr [])) of
        Inl e \<Rightarrow> Inl e
      | Inr auth \<Rightarrow>
     (case py_int U (py_or (py_get comment ''likeCount'') (PInt 0)) of
        Inl e \<Rightarrow> Inl e
      | Inr like \<Rightarrow>
          Inr (txt, auth, like, py_or (py_get comment ''platform'') (PStr (ustr ''unknown''))))))"

definition analyze_comment ::
  "pyrt \<Rightarrow> (pystr \<Rightarrow> pystr option) \<Rightarrow> pydict \<Rightarrow> py_error + analysis"
where
  "analyze_comment U detect comment =
     (case read_fields U comment of
        Inl e \<Rightarrow> Inl e
      | Inr (txt, auth, like, plat) \<Rightarrow>
          (let (st, lang) = apply_rules U detect txt auth like plat;
               sc = clamp_score (fst st)
           in Inr \<lparr> author = (if auth \<noteq> [] then auth else ustr ''Unknown''),
                     text = txt,
                     platform = plat,
                     publishedAt = py_get_default comment ''publishedAt'' (PStr []),
                     likeCount = like,
                     score = sc,
                     verdict = verdict_of sc,
                     reasons = snd st,
                     language = lang \<rparr>))"

subsection \<open>The rules as a table\<close>

text \<open>
  The trigger condition of each rule as the code tests it, in the order of the code
  (the two branches on the like count are entries 6 and 7, the three rules on the
  author are under \<^verbatim>\<open>if author\<close>), and the adjustment of each rule.
\<close>

definition triggers ::
  "pyrt \<Rightarrow> (pystr \<Rightarrow> pystr option) \<Rightarrow> pystr \<Rightarrow> pystr \<Rightarrow> int \<Rightarrow> pyval \<Rightarrow> bool list"
where
  "triggers U detect txt auth like plat =
     (let lang = (if txt \<noteq> [] then detect_language detect txt else ustr ''unknown'')
      in [re_url txt,
          re_long_number U txt,
          re_punct txt \<or> re_repeated txt,
          4 \<le> length (filter is_emoji txt),
          length txt \<le> 4 \<or> py_lower U txt \<in> set generic_praise,
          re_promo U txt,
          like = 0,
          like \<noteq> 0 \<and> 25 \<le> like,
          auth \<noteq> [] \<and> (3 \<le> length (filter (isdigit U) auth) \<or> re_user U auth),
          auth \<noteq> [] \<and> length auth \<le> 2 \<and> str_isalpha U auth,
          auth \<noteq> [] \<and> re_botname U auth,
          lang = ustr ''unknown'',
          lang \<noteq> ustr ''unknown''
            \<and> plat \<in> {PStr (ustr ''facebook''), PStr (ustr ''instagram'')}
            \<and> lang \<notin> {ustr ''en'', ustr ''unknown''} \<and> length txt < 20])"

definition deltas :: "int list" where
  "deltas = [- 35, - 10, - 8, - 6, - 12, - 30, - 4, 10, - 10, - 6, - 20, 0, - 6]"

text \<open>The sum of the adjustments of the rules that trigger.\<close>

definition adjustments :: "bool list \<Rightarrow> int" where
  "adjustments ts = sum_list (map (\<lambda>(t, d). if t then d else 0) (zip ts deltas))"

definition rule_triggers :: "pyrt \<Rightarrow> (pystr \<Rightarrow> pystr option) \<Rightarrow> pydict \<Rightarrow> bool list" where
  "rule_triggers U detect comment =
     (case read_fields U comment of
        Inl e \<Rightarrow> []
      | Inr (txt, auth, like, plat) \<Rightarrow> triggers U detect txt auth like plat)"

text \<open>The score of a comment before the clamp.\<close>

definition raw_score :: "pyrt \<Rightarrow> (pystr \<Rightarrow> pystr option) \<Rightarrow> pydict \<Rightarrow> int" where
  "raw_score U detect comment =
     (case read_fields U comment of
        Inl e \<Rightarrow> 0
      | Inr (txt, auth, like, plat) \<Rightarrow> fst (fst (apply_rules U detect txt auth like plat)))"

text \<open>A string that \<^verbatim>\<open>strip()\<close> leaves as it is: no whitespace at either end.\<close>

definition trimmed :: "pyrt \<Rightarrow> pystr \<Rightarrow> bool" where
  "trimmed U s = (s = [] \<or> (\<not> isspace U (hd s) \<and> \<not> isspace U (last s)))"

section \<open>The presentation order\<close>

text \<open>
  \<^verbatim>\<open>sorted(analysis, key=lambda x: x['score'])\<close> in \<^verbatim>\<open>main\<close>. The built-in \<^verbatim>\<open>sorted\<close> is
  ascending and stable; it is modelled by insertion from the right, which puts an
  element before the elements of the sorted rest whose key is not smaller.
\<close>

fun insert_by_key :: "('a \<Rightarrow> int) \<Rightarrow> 'a \<Rightarrow> 'a list \<Rightarrow> 'a list" where
  "insert_by_key key x [] = [x]"
| "insert_by_key key x (y # ys) =
     (if key x \<le> key y then x # y # ys else y # insert_by_key key x ys)"

fun py_sorted :: "('a \<Rightarrow> int) \<Rightarrow> 'a list \<Rightarrow> 'a list" where
  "py_sorted key [] = []"
| "py_sorted key (x # xs) = insert_by_key key x (py_sorted key xs)"

definition analysis_sorted :: "analysis list \<Rightarrow> analysis list" where
  "analysis_sorted analysis = py_sorted score analysis"

section \<open>The CSV reader\<close>

text \<open>
  \<^verbatim>\<open>read_comments_csv\<close> reads the file through \<^verbatim>\<open>csv.DictReader\<close>, which is external. A row
  of the reader is a dictionary from the field names of the header to strings; a
  field that the row lacks is \<^verbatim>\<open>None\<close>, which \<^verbatim>\<open>row.get\<close> also returns for a name that is
  no field. Opening and decoding the file are outside the model: the input is what
  the opened file presents.
\<close>

type_synonym csv_row = "string \<rightharpoonup> pystr"

definition row_get :: "csv_row \<Rightarrow> string \<Rightarrow> pyval" where
  "row_get row k = (case row k of None \<Rightarrow> PNone | Some s \<Rightarrow> PStr s)"

text \<open>The dictionary built for one row of a file with a header; \<^verbatim>\<open>int\<close> can raise.\<close>

definition comment_of_row :: "pyrt \<Rightarrow> csv_row \<Rightarrow> py_error + pydict" where
  "comment_of_row U row =
     (case py_int U (py_or (py_or (row_get row ''likeCount'') (row_get row ''likes'')) (PInt 0)) of
        Inl e \<Rightarrow> Inl e
      | Inr n \<Rightarrow>
          Inr [''author'' \<mapsto> py_or (py_or (py_or (row_get row ''author'') (row_get row ''user''))
                                          (row_get row ''username'')) (PStr (ustr ''Unknown'')),
               ''text'' \<mapsto> py_or (py_or (row_get row ''text'') (row_get row ''comment'')) (PStr []),
               ''publishedAt'' \<mapsto> py_or (py_or (row_get row ''publishedAt'') (row_get row ''time''))
                                        (PStr []),
               ''likeCount'' \<mapsto> PInt n,
               ''platform'' \<mapsto> py_or (row_get row ''platform'') (PStr (ustr ''unknown''))])"

text \<open>
  The loop over the rows, inside \<^verbatim>\<open>try\<close>: an exception leaves the loop, is reported by
  the handler, and the comments appended so far are returned. The second component
  is the exception reported, if any.
\<close>

fun read_rows :: "pyrt \<Rightarrow> csv_row list \<Rightarrow> pydict list \<Rightarrow> pydict list \<times> py_error option" where
  "read_rows U [] comments = (comments, None)"
| "read_rows U (row # rows) comments =
     (case comment_of_row U row of
        Inl e \<Rightarrow> (comments, Some e)
      | Inr c \<Rightarrow> read_rows U rows (comments @ [c]))"

text \<open>\<^verbatim>\<open>s.split(',')\<close>, with the separator as a parameter.\<close>

fun split_on :: "nat \<Rightarrow> pystr \<Rightarrow> pystr list" where
  "split_on d [] = [[]]"
| "split_on d (c # s) =
     (if c = d then [] # split_on d s
      else (case split_on d s of [] \<Rightarrow> [[c]] | p # ps \<Rightarrow> (c # p) # ps))"

text \<open>
  The dictionary built for one line of a file without field names; a line with
  fewer than two parts is skipped (\<open>None\<close>).
\<close>

definition comment_of_line :: "pyrt \<Rightarrow> pystr \<Rightarrow> py_error + pydict option" where
  "comment_of_line U ln =
     (let parts = split_on 44 (py_strip U ln)
      in if length parts < 2 then Inr None
         else (case (if 3 < length parts \<and> str_isdigit U (parts ! 3)
                     then int_of_str U (parts ! 3) else Inr 0) of
                 Inl e \<Rightarrow> Inl e
               | Inr n \<Rightarrow>
                   Inr (Some [''author'' \<mapsto> PStr (py_strip U (parts ! 0)),
                              ''text'' \<mapsto> PStr (py_strip U (parts ! 1)),
                              ''publishedAt'' \<mapsto> PStr (if 2 < length parts
                                                        then py_strip U (parts ! 2) else []),
                              ''likeCount'' \<mapsto> PInt n,
                              ''platform'' \<mapsto> PStr (if 4 < length parts
                                                     then py_strip U (parts ! 4)
                                                     else ustr ''unknown'')])))"

fun read_lines :: "pyrt \<Rightarrow> pystr list \<Rightarrow> pydict list \<Rightarrow> pydict list \<times> py_error option" where
  "read_lines U [] comments = (comments, None)"
| "read_lines U (ln # lns) comments =
     (case comment_of_line U ln of
        Inl e \<Rightarrow> (comments, Some e)
      | Inr None \<Rightarrow> read_lines U lns comments
      | Inr (Some c) \<Rightarrow> read_lines U lns (comments @ [c]))"

text \<open>
  What the opened file presents: the field names the reader found (if any), the
  rows the reader yields, and the lines of the file.
\<close>

record csv_file =
  fieldnames :: "string list option"
  dict_rows :: "csv_row list"
  file_lines :: "pystr list"

definition read_comments_csv :: "pyrt \<Rightarrow> csv_file \<Rightarrow> pydict list \<times> py_error option" where
  "read_comments_csv U f =
     (if fieldnames f = None then read_lines U (file_lines f) []
      else read_rows U (dict_rows f) [])"

section \<open>Concrete inputs\<close>

text \<open>
  A runtime whose tables hold nothing beyond ASCII and a detector that always answers
  \<open>en\<close>, for closed statements about ASCII comments. No function consults the tables
  on an ASCII character, and the evaluations below are proved for every runtime.
\<close>

definition ascii_rt :: pyrt where
  "ascii_rt = \<lparr> u_isspace = (\<lambda>c. False), u_isalpha = (\<lambda>c. False), u_isdecimal = (\<lambda>c. False),
                u_isdigit = (\<lambda>c. False), u_isnumeric = (\<lambda>c. False), u_lower = (\<lambda>s. s),
                u_ci = (\<lambda>p c. False), u_int = (\<lambda>s. None) \<rparr>"

definition detect_en :: "pystr \<Rightarrow> pystr option" where
  "detect_en txt = Some (ustr ''en'')"

text \<open>The first sample comment of \<^verbatim>\<open>load_sample_comments\<close>, without its date.\<close>

definition sample_user123 :: pydict where
  "sample_user123 =
     [''author'' \<mapsto> PStr (ustr ''User123''), ''text'' \<mapsto> PStr (ustr ''Great video! Loved it.''),
      ''likeCount'' \<mapsto> PInt 10, ''platform'' \<mapsto> PStr (ustr ''youtube'')]"

definition empty_comment :: pydict where
  "empty_comment = [''author'' \<mapsto> PStr [], ''text'' \<mapsto> PStr [], ''likeCount'' \<mapsto> PInt 0]"

text \<open>The third and fourth sample comments, the third with thirty likes.\<close>

definition sample_realfan :: pydict where
  "sample_realfan =
     [''author'' \<mapsto> PStr (ustr ''RealFan''), ''text'' \<mapsto> PStr (ustr ''This changed my perspective.''),
      ''publishedAt'' \<mapsto> PStr (ustr ''2023-01-03''), ''likeCount'' \<mapsto> PInt 30,
      ''platform'' \<mapsto> PStr (ustr ''youtube'')]"

definition sample_spambot :: pydict where
  "sample_spambot =
     [''author'' \<mapsto> PStr (ustr ''SpamBot789''),
      ''text'' \<mapsto> PStr (ustr ''Call now 1234567890 for deals!!!''),
      ''publishedAt'' \<mapsto> PStr (ustr ''2023-01-04''), ''likeCount'' \<mapsto> PInt 0,
      ''platform'' \<mapsto> PStr (ustr ''youtube'')]"

text \<open>A comment on which seven penalties apply.\<close>

definition spam_comment :: pydict where
  "spam_comment =
     [''author'' \<mapsto> PStr (ustr ''spambot123''),
      ''text'' \<mapsto> PStr (ustr ''Follow me www.spam.io 1234567 !!!''),
      ''likeCount'' \<mapsto> PInt 0, ''platform'' \<mapsto> PStr (ustr ''youtube'')]"

text \<open>Seven digits directly after a letter.\<close>

definition ticket_comment :: pydict where
  "ticket_comment =
     [''author'' \<mapsto> PStr (ustr ''Alice''), ''text'' \<mapsto> PStr (ustr ''Ticket ID1234567''),
      ''likeCount'' \<mapsto> PInt 5, ''platform'' \<mapsto> PStr (ustr ''youtube'')]"

text \<open>Two comments that differ in the like count only, five and zero.\<close>

definition promo_comment :: "int \<Rightarrow> pydict" where
  "promo_comment likes =
     [''author'' \<mapsto> PStr (ustr ''Alice''),
      ''text'' \<mapsto> PStr (ustr ''follow me on http://spam.example''),
      ''likeCount'' \<mapsto> PInt likes, ''platform'' \<mapsto> PStr (ustr ''youtube'')]"

text \<open>A comment with no suspicious text or author, with the like count as a parameter.\<close>

definition fan_comment :: "int \<Rightarrow> pydict" where
  "fan_comment likes =
     [''author'' \<mapsto> PStr (ustr ''RealFan''), ''text'' \<mapsto> PStr (ustr ''This changed my perspective.''),
      ''likeCount'' \<mapsto> PInt likes, ''platform'' \<mapsto> PStr (ustr ''youtube'')]"

text \<open>A comment whose text has a space at both ends.\<close>

definition padded_comment :: pydict where
  "padded_comment =
     [''author'' \<mapsto> PStr (ustr ''Alice''), ''text'' \<mapsto> PStr (ustr '' hello there ''),
      ''publishedAt'' \<mapsto> PStr (ustr ''2023-01-01''), ''likeCount'' \<mapsto> PInt 3,
      ''platform'' \<mapsto> PStr (ustr ''youtube'')]"

text \<open>
  A file with the header \<^verbatim>\<open>author,text,likeCount\<close> and three rows, the second with a
  like count that is not a number.
\<close>

definition likes_row :: "string \<Rightarrow> string \<Rightarrow> string \<Rightarrow> csv_row" where
  "likes_row a t n = [''author'' \<mapsto> ustr a, ''text'' \<mapsto> ustr t, ''likeCount'' \<mapsto> ustr n]"

definition likes_file :: csv_file where
  "likes_file =
     \<lparr> fieldnames = Some [''author'', ''text'', ''likeCount''],
       dict_rows = [likes_row ''alice'' ''first'' ''3'', likes_row ''bob'' ''hello'' ''abc'',
                    likes_row ''carol'' ''last'' ''7''],
       file_lines = [] \<rparr>"

section \<open>Evaluation\<close>

text \<open>The definitions that evaluate the functions on a concrete comment.\<close>

lemmas char_defs = is_ascii_def isspace_def ascii_digit_def isalpha_def isdecimal_def isdigit_def
  isnumeric_def is_word_def ascii_lower_def is_punct_def is_emoji_def c_space_def

lemmas str_defs = ustr_def py_strip_def py_lower_def str_isalpha_def str_isdigit_def lit_def
  lit_ci_def ci_eq_def

lemmas re_defs = re_url_def re_punct_def re_promo_def re_user_def re_botname_def

lemmas read_defs = read_fields_def strip_val_def py_or_def py_get_def py_get_default_def py_int_def

lemma replicate3: "replicate 3 x = [x, x, x]"
  by (simp add: numeral_3_eq_3)

lemma replicate6: "replicate 6 x = [x, x, x, x, x, x]"
  by (simp add: eval_nat_numeral)

lemma filter_slice_le:
  "length (filter P (take n (drop i s))) \<le> length (filter P s)"
proof -
  have "s = take i s @ (take n (drop i s) @ drop n (drop i s))"
    by (simp only: append_take_drop_id)
  then have "filter P s = filter P (take i s) @ filter P (take n (drop i s)) @ filter P (drop n (drop i s))"
    by (metis filter_append)
  then show ?thesis by simp
qed

lemma long_number_digits:
  assumes "re_long_number U s"
  shows "7 \<le> length (filter (isdecimal U) s)"
proof -
  from assms obtain i j where ij: "i + 7 \<le> j" "j \<le> length s"
    and dec: "\<forall>k\<in>{i..<j}. isdecimal U (s ! k)"
    by (auto simp: re_long_number_def list_ex_iff list_all_iff)
  have "\<forall>x\<in>set (take (j - i) (drop i s)). isdecimal U x"
  proof
    fix x assume "x \<in> set (take (j - i) (drop i s))"
    then obtain m where m: "m < length (take (j - i) (drop i s))" "x = take (j - i) (drop i s) ! m"
      by (auto simp: in_set_conv_nth)
    then have "x = s ! (i + m)" and "i + m < j" using ij by auto
    with dec show "isdecimal U x" by auto
  qed
  then have "length (filter (isdecimal U) (take (j - i) (drop i s))) = length (take (j - i) (drop i s))"
    by (simp add: filter_True)
  also have "\<dots> = j - i" using ij by simp
  finally have "j - i \<le> length (filter (isdecimal U) s)"
    using filter_slice_le [of "isdecimal U" "j - i" i s] by simp
  with ij show ?thesis by linarith
qed

lemma no_long_number:
  "length (filter (isdecimal U) s) < 7 \<Longrightarrow> re_long_number U s = False"
  using long_number_digits [of U s] by auto

section \<open>The long number of rule 2\<close>

text \<open>
  The pattern matches when the text has seven or more decimal digits in a row, with
  no word character directly before the first one and none directly after the
  last one.
\<close>

lemma long_number_found:
  assumes s: "s = pre @ ds @ post"
    and len: "7 \<le> length ds"
    and dec: "list_all (isdecimal U) ds"
    and before: "pre = [] \<or> \<not> is_word U (last pre)"
    and after: "post = [] \<or> \<not> is_word U (hd post)"
  shows "re_long_number U s"
proof -
  let ?i = "length pre" and ?j = "length pre + length ds"
  have ds: "ds \<noteq> []" using len by auto
  have nth_ds: "s ! (?i + k) = ds ! k" if "k < length ds" for k
    using that by (simp add: s nth_append)
  have dec_nth: "isdecimal U (ds ! k)" if "k < length ds" for k
    using dec that by (simp add: list_all_length)
  have word_ds: "is_word U (ds ! k)" if "k < length ds" for k
    using dec_nth [OF that] by (simp add: is_word_def)
  have left: "\<not> (0 < ?i \<and> is_word U (s ! (?i - 1)))"
  proof (cases "pre = []")
    case True then show ?thesis by simp
  next
    case False
    then have "s ! (?i - 1) = last pre"
      by (simp add: s nth_append last_conv_nth)
    with before False show ?thesis by simp
  qed
  have first: "?i < length s \<and> is_word U (s ! ?i)"
    using ds word_ds [of 0] nth_ds [of 0] by (simp add: s)
  have b1: "word_boundary U s ?i"
    unfolding word_boundary_def using left first by blast
  have last_in: "0 < ?j \<and> is_word U (s ! (?j - 1))"
  proof -
    have "s ! (?i + (length ds - 1)) = ds ! (length ds - 1)"
      using ds by (intro nth_ds) simp
    moreover have "?i + (length ds - 1) = ?j - 1" using ds by (cases ds) auto
    ultimately show ?thesis using word_ds [of "length ds - 1"] ds by simp
  qed
  have right: "\<not> (?j < length s \<and> is_word U (s ! ?j))"
  proof (cases "post = []")
    case True then show ?thesis by (simp add: s)
  next
    case False
    then have "s ! ?j = hd post"
      by (simp add: s nth_append hd_conv_nth)
    with after False show ?thesis by simp
  qed
  have b2: "word_boundary U s ?j"
    unfolding word_boundary_def using last_in right by blast
  have all: "list_all (\<lambda>k. isdecimal U (s ! k)) [?i..<?j]"
  proof -
    have "isdecimal U (s ! k)" if "?i \<le> k" "k < ?j" for k
    proof -
      from that obtain m where "k = ?i + m" "m < length ds"
        by (metis add_diff_inverse_nat less_diff_conv2 not_less add.commute nat_add_left_cancel_less)
      then show ?thesis using nth_ds dec_nth by simp
    qed
    then show ?thesis by (simp add: list_all_iff)
  qed
  have "?i \<in> set [0..<Suc (length s)]" "?j \<in> set [0..<Suc (length s)]"
    by (simp_all add: s)
  moreover have "?i + 7 \<le> ?j" using len by simp
  ultimately show ?thesis
    unfolding re_long_number_def list_ex_iff using b1 b2 all by blast
qed

section \<open>The score before the clamp\<close>

text \<open>
  The score that \<open>apply_rules\<close> returns is sixty plus the adjustments of the rules
  whose condition holds.
\<close>

lemma fst_fire: "fst (fire c d r st) = fst st + (if c then d else 0)"
  by (simp add: fire_def)

lemma fst_likes:
  "fst (if (n::int) = 0 then (fst (st::scoring) - 4, snd st) else if 25 \<le> n then (fst st + 10, rs) else st)
   = fst st + (if n = 0 then - 4 else 0) + (if n \<noteq> 0 \<and> 25 \<le> n then 10 else 0)"
  by simp

lemma fst_author:
  "fst (if a \<noteq> [] then fire c10 d10 r10 (fire c9 d9 r9 (fire c8 d8 r8 st)) else st)
   = fst st + (if a \<noteq> [] \<and> c8 then d8 else 0) + (if a \<noteq> [] \<and> c9 then d9 else 0)
       + (if a \<noteq> [] \<and> c10 then d10 else 0)"
  by (simp add: fst_fire)

lemma fst_lang:
  "fst (if c1 then (fst (st::scoring), r1) else if c2 \<and> c3 then (if c4 then (fst st - 6, r2) else st) else st)
   = fst st + (if c1 then 0 else 0) + (if \<not> c1 \<and> c2 \<and> c3 \<and> c4 then - 6 else 0)"
  by simp

lemma raw_formula:
  "fst (fst (apply_rules U detect t a n p)) = 60 + adjustments (triggers U detect t a n p)"
  unfolding apply_rules_def triggers_def Let_def
  apply (subst fst_conv)
  apply (subst fst_lang)
  apply (subst fst_author)
  apply (subst fst_likes)
  apply (simp only: fst_fire fst_conv)
  apply (simp add: adjustments_def deltas_def split del: if_split)
  done

lemma weighted_le:
  "sum_list (map (\<lambda>(t, d). if t then d else 0) (zip ts ds)) \<le> sum_list (map (max (0::int)) ds)"
proof (induction ts ds rule: list_induct2')
  case (3 d ds)
  have "0 \<le> sum_list (map (max (0::int)) (d # ds))"
    by (rule sum_list_nonneg) auto
  then show ?case by simp
qed auto

lemma adjustments_le: "adjustments ts \<le> 10"
  using weighted_le [of ts deltas] by (simp add: adjustments_def) (simp add: deltas_def)

lemma weighted_update:
  "k < length ts \<Longrightarrow> k < length ds \<Longrightarrow>
   sum_list (map (\<lambda>(t, d). if t then d else 0) (zip ts ds))
   = sum_list (map (\<lambda>(t, d). if t then d else 0) (zip (ts[k := False]) ds))
     + (if ts ! k then ds ! k else (0::int))"
proof (induction ts ds arbitrary: k rule: list_induct2')
  case (4 t ts d ds)
  then show ?case by (cases k) auto
qed auto

lemma adjustments_split:
  "k < length ts \<Longrightarrow> k < 13 \<Longrightarrow>
   adjustments ts = adjustments (ts[k := False]) + (if ts ! k then deltas ! k else 0)"
  unfolding adjustments_def by (rule weighted_update) (simp_all add: deltas_def)

lemma length_triggers: "length (triggers U detect t a n p) = 13"
  by (simp add: triggers_def Let_def)

lemma analyze_comment_Inr:
  assumes "analyze_comment U detect comment = Inr r"
  obtains t a n p where
    "read_fields U comment = Inr (t, a, n, p)"
    "score r = clamp_score (fst (fst (apply_rules U detect t a n p)))"
    "verdict r = verdict_of (score r)"
    "reasons r = snd (fst (apply_rules U detect t a n p))"
    "language r = snd (apply_rules U detect t a n p)"
    "text r = t" "likeCount r = n" "platform r = p"
    "author r = (if a \<noteq> [] then a else ustr ''Unknown'')"
    "publishedAt r = py_get_default comment ''publishedAt'' (PStr [])"
  using assms
  by (auto simp: analyze_comment_def Let_def split: sum.splits prod.splits)

lemma analyze_comment_read:
  assumes "read_fields U comment = Inr (t, a, n, p)"
  shows "analyze_comment U detect comment =
     Inr \<lparr> author = (if a \<noteq> [] then a else ustr ''Unknown''), text = t, platform = p,
           publishedAt = py_get_default comment ''publishedAt'' (PStr []), likeCount = n,
           score = clamp_score (fst (fst (apply_rules U detect t a n p))),
           verdict = verdict_of (clamp_score (fst (fst (apply_rules U detect t a n p)))),
           reasons = snd (fst (apply_rules U detect t a n p)),
           language = snd (apply_rules U detect t a n p) \<rparr>"
  using assms by (simp add: analyze_comment_def Let_def split: prod.splits)

lemma raw_le_70: "fst (fst (apply_rules U detect t a n p)) \<le> 70"
  using adjustments_le [of "triggers U detect t a n p"] by (simp add: raw_formula)

section \<open>The sample comments\<close>

lemma analyze_user123:
  "analyze_comment U detect_en sample_user123 =
     Inr \<lparr> author = ustr ''User123'', text = ustr ''Great video! Loved it.'',
           platform = PStr (ustr ''youtube''), publishedAt = PStr [], likeCount = 10,
           score = 50, verdict = ustr ''likely-real'', reasons = [reason_digits],
           language = ustr ''en'' \<rparr>"
  by (simp add: analyze_comment_def sample_user123_def read_defs apply_rules_def fire_def
      detect_language_def detect_en_def no_long_number re_defs replicate3 replicate6
      generic_praise_def str_defs char_defs clamp_score_def verdict_of_def)

lemma analyze_realfan:
  "analyze_comment U detect_en sample_realfan =
     Inr \<lparr> author = ustr ''RealFan'', text = ustr ''This changed my perspective.'',
           platform = PStr (ustr ''youtube''), publishedAt = PStr (ustr ''2023-01-03''),
           likeCount = 30, score = 70, verdict = ustr ''real'', reasons = [reason_likes],
           language = ustr ''en'' \<rparr>"
  by (simp add: analyze_comment_def sample_realfan_def read_defs apply_rules_def fire_def
      detect_language_def detect_en_def no_long_number re_defs replicate3 replicate6
      generic_praise_def str_defs char_defs clamp_score_def verdict_of_def)

lemma analyze_spam:
  "analyze_comment U detect_en spam_comment =
     Inr \<lparr> author = ustr ''spambot123'', text = ustr ''Follow me www.spam.io 1234567 !!!'',
           platform = PStr (ustr ''youtube''), publishedAt = PStr [], likeCount = 0,
           score = 0, verdict = ustr ''fake'',
           reasons = [reason_url, reason_number, reason_punct, reason_promo, reason_digits,
                      reason_botname],
           language = ustr ''en'' \<rparr>"
proof -
  have "re_long_number U (ustr ''Follow me www.spam.io '' @ ustr ''1234567'' @ ustr '' !!!'')"
    by (rule long_number_found [OF refl]) (simp_all add: str_defs char_defs)
  then have number: "re_long_number U (ustr ''Follow me www.spam.io 1234567 !!!'')"
    by (simp add: ustr_def)
  show ?thesis
    by (simp add: analyze_comment_def spam_comment_def read_defs apply_rules_def fire_def
        detect_language_def detect_en_def number [unfolded ustr_def, simplified] re_defs
        replicate3 replicate6 generic_praise_def str_defs char_defs clamp_score_def
        verdict_of_def)
qed

section \<open>The score and the verdict\<close>

text \<open>
  \<open>analyze_comment\<close> returns a result on every comment whose text and author are
  strings (or absent, or \<^verbatim>\<open>None\<close>) and whose like count is an integer (or absent, or
  \<^verbatim>\<open>None\<close>): these are the comments that the fetchers, the samples and the CSV reader
  make.
\<close>

lemma strip_val_returns:
  "v = PNone \<or> (\<exists>s. v = PStr s) \<Longrightarrow> \<exists>t. strip_val U (py_or v (PStr [])) = Inr t"
  by (cases v) (auto simp: py_or_def strip_val_def)

lemma py_int_returns:
  "v = PNone \<or> (\<exists>n. v = PInt n) \<Longrightarrow> \<exists>n. py_int U (py_or v (PInt 0)) = Inr n"
  by (cases v) (auto simp: py_or_def py_int_def)

lemma read_fields_returns:
  assumes "py_get comment ''text'' = PNone \<or> (\<exists>s. py_get comment ''text'' = PStr s)"
    and "py_get comment ''author'' = PNone \<or> (\<exists>s. py_get comment ''author'' = PStr s)"
    and "py_get comment ''likeCount'' = PNone \<or> (\<exists>n. py_get comment ''likeCount'' = PInt n)"
  shows "\<exists>t a n p. read_fields U comment = Inr (t, a, n, p)"
proof -
  from strip_val_returns [OF assms(1), of U] obtain t
    where "strip_val U (py_or (py_get comment ''text'') (PStr [])) = Inr t" by blast
  moreover from strip_val_returns [OF assms(2), of U] obtain a
    where "strip_val U (py_or (py_get comment ''author'') (PStr [])) = Inr a" by blast
  moreover from py_int_returns [OF assms(3), of U] obtain n
    where "py_int U (py_or (py_get comment ''likeCount'') (PInt 0)) = Inr n" by blast
  ultimately show ?thesis by (simp add: read_fields_def)
qed

lemma analyze_comment_returns:
  assumes "py_get comment ''text'' = PNone \<or> (\<exists>s. py_get comment ''text'' = PStr s)"
    and "py_get comment ''author'' = PNone \<or> (\<exists>s. py_get comment ''author'' = PStr s)"
    and "py_get comment ''likeCount'' = PNone \<or> (\<exists>n. py_get comment ''likeCount'' = PInt n)"
  shows "\<exists>r. analyze_comment U detect comment = Inr r"
  using read_fields_returns [OF assms, of U] by (auto simp: analyze_comment_read)

text \<open>
  C1. Whenever \<open>analyze_comment\<close> returns a result, its score is an integer from 0 to
  100, whatever rules applied: the clamp is the last assignment to the score.
\<close>

theorem score_in_range:
  "analyze_comment U detect comment = Inr r \<Longrightarrow> 0 \<le> score r \<and> score r \<le> 100"
  by (erule analyze_comment_Inr) (simp add: clamp_score_def)

text \<open>
  On the comment with seven penalties the sum is 60 - 117, and the score is 0.
\<close>

theorem score_in_range_witness:
  "\<exists>r. analyze_comment ascii_rt detect_en spam_comment = Inr r \<and> score r = 0
       \<and> 0 \<le> score r \<and> score r \<le> 100"
  using score_in_range [OF analyze_spam [of ascii_rt]] analyze_spam [of ascii_rt] by simp

text \<open>
  C2. The verdict of a result is a function of its score alone, by the thresholds
  60, 40 and 20: \<open>real\<close> from 60, \<open>likely-real\<close> from 40 to 59, \<open>likely-fake\<close> from 20 to
  39, \<open>fake\<close> below 20.
\<close>

theorem verdict_from_score:
  "analyze_comment U detect comment = Inr r \<Longrightarrow>
     verdict r = (if 60 \<le> score r then ustr ''real''
                  else if 40 \<le> score r \<and> score r < 60 then ustr ''likely-real''
                  else if 20 \<le> score r \<and> score r < 40 then ustr ''likely-fake''
                  else ustr ''fake'')"
  by (erule analyze_comment_Inr) (simp add: verdict_of_def)

theorem verdict_from_score_witness:
  "\<exists>r. analyze_comment ascii_rt detect_en sample_user123 = Inr r \<and> score r = 50
       \<and> verdict r = ustr ''likely-real''"
  using verdict_from_score [OF analyze_user123 [of ascii_rt]] analyze_user123 [of ascii_rt]
  by simp

text \<open>
  C10. The score of a result is at most 70: the only adjustment above zero is the
  ten of a comment with 25 likes or more, so the upper bound of the clamp is never
  reached.
\<close>

theorem score_at_most_70:
  "analyze_comment U detect comment = Inr r \<Longrightarrow> score r \<le> 70"
proof (erule analyze_comment_Inr)
  fix t a n p
  assume "score r = clamp_score (fst (fst (apply_rules U detect t a n p)))"
  moreover have "fst (fst (apply_rules U detect t a n p)) \<le> 70"
    by (rule raw_le_70)
  ultimately show ?thesis by (simp add: clamp_score_def)
qed

text \<open>The bound is reached by the sample comment with thirty likes.\<close>

theorem score_at_most_70_witness:
  "\<exists>r. analyze_comment ascii_rt detect_en sample_realfan = Inr r \<and> score r = 70 \<and> score r \<le> 70"
  using score_at_most_70 [OF analyze_realfan [of ascii_rt]] analyze_realfan [of ascii_rt]
  by simp

section \<open>The two concrete scenarios\<close>

lemma read_user123:
  "read_fields U sample_user123 =
     Inr (ustr ''Great video! Loved it.'', ustr ''User123'', 10, PStr (ustr ''youtube''))"
  by (simp add: sample_user123_def read_defs str_defs char_defs)

lemma rules_user123:
  "apply_rules U detect (ustr ''Great video! Loved it.'') (ustr ''User123'') 10 (PStr (ustr ''youtube''))
   = ((50, if detect (ustr ''Great video! Loved it.'') \<in> {None, Some (ustr ''unknown'')}
           then [reason_digits, reason_lang] else [reason_digits]),
      detect_language detect (ustr ''Great video! Loved it.''))"
  by (auto simp add: apply_rules_def fire_def detect_language_def no_long_number re_defs replicate3
      replicate6 generic_praise_def str_defs char_defs split: option.splits)

text \<open>
  C3 (amended). On the first sample comment (author \<open>User123\<close>, ten likes, YouTube) the
  author has three digits, so the rule on digits in the author name applies: the
  score is 50 and the verdict \<open>likely-real\<close>, whatever the detector answers; when it
  answers \<open>en\<close> the only reason is that of the author rule.
\<close>

theorem sample_user123_score:
  "\<exists>r. analyze_comment U detect sample_user123 = Inr r \<and> score r = 50
       \<and> verdict r = ustr ''likely-real''
       \<and> (detect (ustr ''Great video! Loved it.'') = Some (ustr ''en'')
            \<longrightarrow> reasons r = [reason_digits] \<and> language r = ustr ''en'')"
  unfolding analyze_comment_read [OF read_user123] rules_user123
  by (simp add: clamp_score_def verdict_of_def detect_language_def ustr_def)

theorem sample_user123_score_witness:
  "\<exists>r. analyze_comment ascii_rt detect_en sample_user123 = Inr r \<and> score r = 50
       \<and> verdict r = ustr ''likely-real'' \<and> reasons r = [reason_digits]
       \<and> language r = ustr ''en''"
  using sample_user123_score [of ascii_rt detect_en] by (simp add: detect_en_def)

theorem sample_user123_counterexample:
  "map_sum id score (analyze_comment ascii_rt detect_en sample_user123) = Inr 50
   \<and> map_sum id score (analyze_comment ascii_rt detect_en sample_user123) \<noteq> Inr 60
   \<and> map_sum id verdict (analyze_comment ascii_rt detect_en sample_user123) \<noteq> Inr (ustr ''real'')"
  by (simp add: analyze_user123 ustr_def)

lemma py_or_falsy: "\<not> truthy a \<Longrightarrow> py_or a b = b"
  by (simp add: py_or_def)

lemma rules_empty:
  "apply_rules U detect [] [] 0 p = ((44, [reason_short, reason_lang]), ustr ''unknown'')"
  by (simp add: apply_rules_def fire_def re_long_number_def re_defs replicate3 lit_def lit_ci_def
      py_lower_def ustr_def)

text \<open>
  C4 (amended). On a comment whose text and author are empty (or absent) and whose
  like count is zero, two adjustments apply: the empty text has at most four
  characters, which is the rule on short texts (-12), and the like count is zero
  (-4). The reasons are that of the short text and that of the unknown language, the
  score is 44 and the verdict \<open>likely-real\<close>.
\<close>

theorem empty_comment_score:
  assumes "\<not> truthy (py_get comment ''text'')"
    and "\<not> truthy (py_get comment ''author'')"
    and "\<not> truthy (py_get comment ''likeCount'')"
  shows "\<exists>r. analyze_comment U detect comment = Inr r \<and> score r = 44
           \<and> verdict r = ustr ''likely-real'' \<and> reasons r = [reason_short, reason_lang]
           \<and> language r = ustr ''unknown''"
proof -
  have "read_fields U comment =
          Inr ([], [], 0, py_or (py_get comment ''platform'') (PStr (ustr ''unknown'')))"
    using assms by (simp add: read_fields_def py_or_falsy strip_val_def py_strip_def py_int_def)
  then show ?thesis
    by (simp add: analyze_comment_read rules_empty clamp_score_def verdict_of_def)
qed

theorem empty_comment_score_witness:
  "\<exists>r. analyze_comment ascii_rt detect_en empty_comment = Inr r \<and> score r = 44
       \<and> verdict r = ustr ''likely-real'' \<and> reasons r = [reason_short, reason_lang]"
  using empty_comment_score [of empty_comment ascii_rt detect_en]
  by (auto simp add: empty_comment_def py_get_def)

lemma analyze_empty:
  "analyze_comment U detect empty_comment =
     Inr \<lparr> author = ustr ''Unknown'', text = [], platform = PStr (ustr ''unknown''),
           publishedAt = PStr [], likeCount = 0, score = 44, verdict = ustr ''likely-real'',
           reasons = [reason_short, reason_lang], language = ustr ''unknown'' \<rparr>"
proof -
  have "read_fields U empty_comment = Inr ([], [], 0, PStr (ustr ''unknown''))"
    by (simp add: empty_comment_def read_defs py_strip_def)
  then show ?thesis
    by (simp add: analyze_comment_read rules_empty clamp_score_def verdict_of_def
        py_get_default_def empty_comment_def)
qed

theorem empty_comment_counterexample:
  "map_sum id score (analyze_comment ascii_rt detect_en empty_comment) = Inr 44
   \<and> map_sum id score (analyze_comment ascii_rt detect_en empty_comment) \<noteq> Inr 56
   \<and> map_sum id reasons (analyze_comment ascii_rt detect_en empty_comment)
       = Inr [reason_short, reason_lang]"
  by (simp add: analyze_empty)

section \<open>The sorted view\<close>

lemma mset_insert_by_key: "mset (insert_by_key key x ys) = add_mset x (mset ys)"
  by (induction ys) auto

lemma set_insert_by_key: "set (insert_by_key key x ys) = insert x (set ys)"
  by (induction ys) auto

lemma sorted_insert_by_key:
  "sorted (map key ys) \<Longrightarrow> sorted (map key (insert_by_key key x ys))"
  by (induction ys) (auto simp: set_insert_by_key)

lemma filter_insert_by_key:
  "filter (\<lambda>y. key y = k) (insert_by_key key x ys)
   = (if key x = k then x # filter (\<lambda>y. key y = k) ys else filter (\<lambda>y. key y = k) ys)"
  by (induction ys) auto

lemma mset_py_sorted: "mset (py_sorted key xs) = mset xs"
  by (induction xs) (auto simp: mset_insert_by_key)

lemma sorted_py_sorted: "sorted (map key (py_sorted key xs))"
  by (induction xs) (auto simp: sorted_insert_by_key)

lemma filter_py_sorted:
  "filter (\<lambda>y. key y = k) (py_sorted key xs) = filter (\<lambda>y. key y = k) xs"
  by (induction xs) (auto simp: filter_insert_by_key)

text \<open>
  C9. The view of \<^verbatim>\<open>main\<close> holds the same results as the analysis, in ascending order
  of score, and the results of any one score are in their original order.
\<close>

theorem analysis_sorted_stable:
  "sorted (map score (analysis_sorted rs))
   \<and> mset (analysis_sorted rs) = mset rs
   \<and> filter (\<lambda>r. score r = k) (analysis_sorted rs) = filter (\<lambda>r. score r = k) rs"
  by (simp add: analysis_sorted_def sorted_py_sorted mset_py_sorted filter_py_sorted)

section \<open>The rule on long numbers\<close>

lemma in_fire: "x \<in> set (snd st) \<Longrightarrow> x \<in> set (snd (fire c d r st))"
  by (simp add: fire_def)

lemma in_fire_here: "c \<Longrightarrow> r \<in> set (snd (fire c d r st))"
  by (simp add: fire_def)

lemma in_likes:
  "x \<in> set (snd st) \<Longrightarrow>
   x \<in> set (snd (if (n::int) = 0 then (fst (st::scoring) - 4, snd st)
                  else if 25 \<le> n then (fst st + 10, snd st @ [r]) else st))"
  by simp

lemma in_author:
  "x \<in> set (snd st) \<Longrightarrow>
   x \<in> set (snd (if a \<noteq> [] then fire c10 d10 r10 (fire c9 d9 r9 (fire c8 d8 r8 st)) else st))"
  by (simp add: fire_def)

lemma in_lang:
  "x \<in> set (snd st) \<Longrightarrow>
   x \<in> set (snd (if c1 then (fst (st::scoring), snd st @ [r1])
                  else if c2 then (if c4 then (fst st - 6, snd st @ [r2]) else st) else st))"
  by simp

lemma reason_number_in:
  "re_long_number U t \<Longrightarrow> reason_number \<in> set (snd (fst (apply_rules U detect t a n p)))"
  unfolding apply_rules_def Let_def
  apply (subst fst_conv)
  apply (rule in_lang)
  apply (rule in_author)
  apply (rule in_likes)
  apply (rule in_fire)
  apply (rule in_fire)
  apply (rule in_fire)
  apply (rule in_fire)
  apply (rule in_fire_here)
  apply assumption
  done

lemma nth_triggers_1: "triggers U detect t a n p ! Suc 0 = re_long_number U t"
  by (simp add: triggers_def Let_def)

text \<open>
  C5 (amended). When the trimmed text has a run of seven or more decimal digits that
  is not directly preceded and not directly followed by a word character (a letter,
  a digit or an underscore), rule 2 applies: the reason of the long number is among
  the reasons, and the score is the clamp of sixty plus the adjustments of the other
  rules minus ten.
\<close>

theorem long_number_rule:
  assumes "read_fields U comment = Inr (t, a, n, p)"
    and "t = pre @ ds @ post" and "7 \<le> length ds" and "list_all (isdecimal U) ds"
    and "pre = [] \<or> \<not> is_word U (last pre)" and "post = [] \<or> \<not> is_word U (hd post)"
  shows "\<exists>r. analyze_comment U detect comment = Inr r \<and> reason_number \<in> set (reasons r)
           \<and> score r = clamp_score (60 + adjustments ((triggers U detect t a n p)[1 := False]) - 10)"
proof -
  have found: "re_long_number U t"
    using assms(2-6) by (rule long_number_found)
  have "adjustments (triggers U detect t a n p)
        = adjustments ((triggers U detect t a n p)[1 := False]) + deltas ! 1"
    using adjustments_split [of 1 "triggers U detect t a n p"] found
    by (simp add: length_triggers nth_triggers_1)
  then have "fst (fst (apply_rules U detect t a n p))
        = 60 + adjustments ((triggers U detect t a n p)[1 := False]) - 10"
    by (simp add: raw_formula deltas_def)
  then show ?thesis
    using reason_number_in [OF found, of detect a n p]
    by (simp add: analyze_comment_read [OF assms(1)])
qed


lemma read_spambot:
  "read_fields U sample_spambot =
     Inr (ustr ''Call now '' @ ustr ''1234567890'' @ ustr '' for deals!!!'', ustr ''SpamBot789'', 0,
          PStr (ustr ''youtube''))"
  by (simp add: sample_spambot_def read_defs str_defs char_defs)

theorem long_number_rule_witness:
  "\<exists>r. analyze_comment ascii_rt detect_en sample_spambot = Inr r
       \<and> reason_number \<in> set (reasons r) \<and> score r = 8"
proof -
  let ?t = "ustr ''Call now '' @ ustr ''1234567890'' @ ustr '' for deals!!!''"
  have tr: "(triggers ascii_rt detect_en ?t (ustr ''SpamBot789'') 0 (PStr (ustr ''youtube'')))[1 := False]
        = [False, False, True, False, False, False, True, False, True, False, True, False, False]"
    by (simp add: triggers_def detect_language_def detect_en_def re_defs replicate3 replicate6
        generic_praise_def str_defs char_defs)
  have "\<exists>r. analyze_comment ascii_rt detect_en sample_spambot = Inr r
       \<and> reason_number \<in> set (reasons r)
       \<and> score r = clamp_score (60 + adjustments ((triggers ascii_rt detect_en ?t
             (ustr ''SpamBot789'') 0 (PStr (ustr ''youtube'')))[1 := False]) - 10)"
    by (rule long_number_rule [OF read_spambot refl]) (simp_all add: str_defs char_defs)
  then show ?thesis
    unfolding tr by (simp add: adjustments_def deltas_def clamp_score_def)
qed

lemma long_number_start:
  assumes "re_long_number U s"
  shows "list_ex (\<lambda>i. i + 7 \<le> length s \<and> word_boundary U s i
                      \<and> list_all (isdecimal U) (take 7 (drop i s)))
                 [0..<Suc (length s)]"
proof -
  from assms obtain i j where ij: "i + 7 \<le> j" "j \<le> length s" "word_boundary U s i"
    and dec: "\<forall>k\<in>{i..<j}. isdecimal U (s ! k)"
    by (auto simp: re_long_number_def list_ex_iff list_all_iff)
  have "i \<in> set [0..<Suc (length s)]" using ij by simp
  moreover have "list_all (isdecimal U) (take 7 (drop i s))"
    unfolding list_all_length
  proof (intro allI impI)
    fix m assume "m < length (take 7 (drop i s))"
    then have "m < 7" "take 7 (drop i s) ! m = s ! (i + m)" using ij by auto
    then show "isdecimal U (take 7 (drop i s) ! m)" using dec ij by auto
  qed
  ultimately show ?thesis
    using ij unfolding list_ex_iff by (intro bexI [of _ i]) auto
qed

lemma no_long_number_start:
  "\<not> list_ex (\<lambda>i. i + 7 \<le> length s \<and> word_boundary U s i
                      \<and> list_all (isdecimal U) (take 7 (drop i s)))
               [0..<Suc (length s)] \<Longrightarrow> \<not> re_long_number U s"
  using long_number_start [of U s] by blast

lemma ticket_number: "\<not> re_long_number U (ustr ''Ticket ID1234567'')"
  by (rule no_long_number_start) (simp add: word_boundary_def str_defs char_defs)

lemma analyze_ticket:
  "analyze_comment U detect_en ticket_comment =
     Inr \<lparr> author = ustr ''Alice'', text = ustr ''Ticket ID1234567'',
           platform = PStr (ustr ''youtube''), publishedAt = PStr [], likeCount = 5,
           score = 60, verdict = ustr ''real'', reasons = [], language = ustr ''en'' \<rparr>"
  by (simp add: analyze_comment_def ticket_comment_def read_defs apply_rules_def fire_def
      detect_language_def detect_en_def ticket_number [unfolded ustr_def, simplified] re_defs
      replicate3 replicate6 generic_praise_def str_defs char_defs clamp_score_def verdict_of_def)

text \<open>
  The claim as stated fails on a text whose seven digits follow a letter directly:
  no reason is given and the score stays at sixty.
\<close>

theorem long_number_counterexample:
  "ticket_comment ''text'' = Some (PStr (ustr ''Ticket ID'' @ ustr ''1234567''))
   \<and> list_all ascii_digit (ustr ''1234567'') \<and> length (ustr ''1234567'') = 7
   \<and> map_sum id reasons (analyze_comment ascii_rt detect_en ticket_comment) = Inr []
   \<and> map_sum id score (analyze_comment ascii_rt detect_en ticket_comment) = Inr 60"
  by (simp add: analyze_ticket) (simp add: ticket_comment_def ustr_def ascii_digit_def)

section \<open>One rule at a time\<close>

lemma raw_score_read:
  "read_fields U comment = Inr (t, a, n, p) \<Longrightarrow>
   raw_score U detect comment = 60 + adjustments (rule_triggers U detect comment)"
  by (simp add: raw_score_def rule_triggers_def raw_formula)

lemma adjustments_set:
  assumes "k < length ts" and "k < 13" and "\<not> ts ! k"
  shows "adjustments (ts[k := True]) = adjustments ts + deltas ! k"
proof -
  have "adjustments (ts[k := True])
        = adjustments ((ts[k := True])[k := False]) + deltas ! k"
    using adjustments_split [of k "ts[k := True]"] assms by simp
  moreover have "(ts[k := True])[k := False] = ts"
    using assms by (simp add: list_update_same_conv)
  ultimately show ?thesis by simp
qed

text \<open>
  C6 (amended). When two comments are analyzed and their rule conditions are the
  same except for one rule, which applies to the second comment only, the scores
  before the clamp differ by the adjustment of that rule; the returned scores are
  the clamps of these, and they differ by the adjustment whenever neither score is
  below zero before the clamp.
\<close>

theorem rule_independence:
  assumes "analyze_comment U detect c = Inr r" and "analyze_comment U detect c' = Inr r'"
    and "k < 13" and "\<not> rule_triggers U detect c ! k"
    and "rule_triggers U detect c' = (rule_triggers U detect c)[k := True]"
  shows "raw_score U detect c' = raw_score U detect c + deltas ! k
       \<and> score r = clamp_score (raw_score U detect c)
       \<and> score r' = clamp_score (raw_score U detect c')
       \<and> (0 \<le> raw_score U detect c \<and> 0 \<le> raw_score U detect c'
            \<longrightarrow> score r' = score r + deltas ! k)"
proof -
  from assms(1) obtain t a n p where c: "read_fields U c = Inr (t, a, n, p)"
    and sc: "score r = clamp_score (fst (fst (apply_rules U detect t a n p)))"
    by (rule analyze_comment_Inr)
  from assms(2) obtain t' a' n' p' where c': "read_fields U c' = Inr (t', a', n', p')"
    and sc': "score r' = clamp_score (fst (fst (apply_rules U detect t' a' n' p')))"
    by (rule analyze_comment_Inr)
  have len: "length (rule_triggers U detect c) = 13"
    by (simp add: rule_triggers_def c length_triggers)
  have raw: "raw_score U detect c = 60 + adjustments (rule_triggers U detect c)"
    and raw': "raw_score U detect c' = 60 + adjustments (rule_triggers U detect c')"
    using c c' by (simp_all add: raw_score_read)
  have diff: "raw_score U detect c' = raw_score U detect c + deltas ! k"
    using adjustments_set [of k "rule_triggers U detect c"] assms(3-5) len raw raw' by simp
  have s: "score r = clamp_score (raw_score U detect c)"
    and s': "score r' = clamp_score (raw_score U detect c')"
    using sc sc' c c' by (simp_all add: raw_score_def)
  have "raw_score U detect c \<le> 70" "raw_score U detect c' \<le> 70"
    using c c' by (simp_all add: raw_score_def raw_le_70)
  then have "0 \<le> raw_score U detect c \<and> 0 \<le> raw_score U detect c'
             \<longrightarrow> score r' = score r + deltas ! k"
    using diff s s' by (simp add: clamp_score_def)
  with diff s s' show ?thesis by simp
qed

lemma read_fan:
  "read_fields U (fan_comment n) =
     Inr (ustr ''This changed my perspective.'', ustr ''RealFan'', n, PStr (ustr ''youtube''))"
  by (simp add: fan_comment_def read_defs str_defs char_defs)

lemma triggers_fan:
  "n \<noteq> 0 \<Longrightarrow>
   triggers U detect_en (ustr ''This changed my perspective.'') (ustr ''RealFan'') n
     (PStr (ustr ''youtube''))
   = [False, False, False, False, False, False, False, 25 \<le> n, False, False, False, False, False]"
  by (simp add: triggers_def detect_language_def detect_en_def no_long_number re_defs replicate3
      replicate6 generic_praise_def str_defs char_defs)

lemma read_promo:
  "read_fields U (promo_comment n) =
     Inr (ustr ''follow me on http://spam.example'', ustr ''Alice'', n, PStr (ustr ''youtube''))"
  by (simp add: promo_comment_def read_defs str_defs char_defs)

lemma triggers_promo:
  "n < 25 \<Longrightarrow>
   triggers U detect_en (ustr ''follow me on http://spam.example'') (ustr ''Alice'') n
     (PStr (ustr ''youtube''))
   = [True, False, False, False, False, True, n = 0, False, False, False, False, False, False]"
  by (simp add: triggers_def detect_language_def detect_en_def no_long_number re_defs replicate3
      replicate6 generic_praise_def str_defs char_defs)


lemma analyze_fan:
  "n \<noteq> 0 \<Longrightarrow>
   analyze_comment U detect_en (fan_comment n) =
     Inr \<lparr> author = ustr ''RealFan'', text = ustr ''This changed my perspective.'',
           platform = PStr (ustr ''youtube''), publishedAt = PStr [], likeCount = n,
           score = (if 25 \<le> n then 70 else 60), verdict = ustr ''real'',
           reasons = (if 25 \<le> n then [reason_likes] else []), language = ustr ''en'' \<rparr>"
  by (simp add: analyze_comment_def fan_comment_def read_defs apply_rules_def fire_def
      detect_language_def detect_en_def no_long_number re_defs replicate3 replicate6
      generic_praise_def str_defs char_defs clamp_score_def verdict_of_def)

text \<open>
  The neutral comment with five and with thirty likes: only the rule on many likes
  differs, and the scores are 60 and 70.
\<close>

theorem rule_independence_witness:
  "\<exists>r r'. analyze_comment ascii_rt detect_en (fan_comment 5) = Inr r
        \<and> analyze_comment ascii_rt detect_en (fan_comment 30) = Inr r'
        \<and> score r = 60 \<and> score r' = 70 \<and> deltas ! 7 = 10
        \<and> raw_score ascii_rt detect_en (fan_comment 30)
            = raw_score ascii_rt detect_en (fan_comment 5) + deltas ! 7
        \<and> score r' = score r + deltas ! 7"
proof -
  obtain r where a: "analyze_comment ascii_rt detect_en (fan_comment 5) = Inr r" "score r = 60"
    using analyze_fan [of 5 ascii_rt] by simp
  obtain r' where b: "analyze_comment ascii_rt detect_en (fan_comment 30) = Inr r'" "score r' = 70"
    using analyze_fan [of 30 ascii_rt] by simp
  have t5: "rule_triggers ascii_rt detect_en (fan_comment 5)
        = [False, False, False, False, False, False, False, False, False, False, False, False, False]"
    by (simp add: rule_triggers_def read_fan triggers_fan)
  have t30: "rule_triggers ascii_rt detect_en (fan_comment 30)
        = [False, False, False, False, False, False, False, True, False, False, False, False, False]"
    by (simp add: rule_triggers_def read_fan triggers_fan)
  have "raw_score ascii_rt detect_en (fan_comment 30)
          = raw_score ascii_rt detect_en (fan_comment 5) + deltas ! 7
       \<and> score r = clamp_score (raw_score ascii_rt detect_en (fan_comment 5))
       \<and> score r' = clamp_score (raw_score ascii_rt detect_en (fan_comment 30))
       \<and> (0 \<le> raw_score ascii_rt detect_en (fan_comment 5)
            \<and> 0 \<le> raw_score ascii_rt detect_en (fan_comment 30)
            \<longrightarrow> score r' = score r + deltas ! 7)"
    by (rule rule_independence [OF a(1) b(1)]) (simp_all add: t5 t30)
  then show ?thesis
    using a b by (auto simp add: deltas_def)
qed

lemma analyze_promo:
  "n < 25 \<Longrightarrow>
   map_sum id score (analyze_comment U detect_en (promo_comment n)) = Inr 0"
  by (simp add: analyze_comment_read [OF read_promo] raw_formula triggers_promo adjustments_def
      deltas_def clamp_score_def)

text \<open>
  The claim as stated fails where the clamp applies: the comment with a link and a
  call to follow has the score 0 with five likes and with no likes, although the
  rule on a zero like count, whose adjustment is -4, applies to the second only.
\<close>

theorem rule_independence_counterexample:
  "rule_triggers ascii_rt detect_en (promo_comment 0)
     = (rule_triggers ascii_rt detect_en (promo_comment 5))[6 := True]
   \<and> \<not> rule_triggers ascii_rt detect_en (promo_comment 5) ! 6
   \<and> deltas ! 6 = - 4
   \<and> map_sum id score (analyze_comment ascii_rt detect_en (promo_comment 5)) = Inr 0
   \<and> map_sum id score (analyze_comment ascii_rt detect_en (promo_comment 0)) = Inr 0"
  by (simp add: rule_triggers_def read_promo triggers_promo analyze_promo deltas_def)

section \<open>The fields of the comment in the result\<close>

lemma dropWhile_hd: "s = [] \<or> \<not> P (hd s) \<Longrightarrow> dropWhile P s = s"
  by (cases s) auto

lemma py_strip_trimmed: "trimmed U s \<Longrightarrow> py_strip U s = s"
proof -
  assume t: "trimmed U s"
  then have 1: "dropWhile (isspace U) s = s"
    by (intro dropWhile_hd) (auto simp: trimmed_def)
  from t have "rev s = [] \<or> \<not> isspace U (hd (rev s))"
    by (auto simp: trimmed_def hd_rev)
  then have 2: "dropWhile (isspace U) (rev s) = rev s"
    by (rule dropWhile_hd)
  show ?thesis by (simp add: py_strip_def 1 2)
qed

lemma py_or_str: "py_or (PStr s) (PStr []) = PStr s"
  by (simp add: py_or_def)

lemma py_or_int: "py_or (PInt n) (PInt 0) = PInt n"
  by (simp add: py_or_def)

text \<open>
  C7 (amended). For a comment that holds all five fields, with strings for text,
  author and platform and an integer like count, \<open>analyze_comment\<close> returns a result
  in which \<open>publishedAt\<close> and \<open>likeCount\<close> are those of the comment, the text is the
  text without the whitespace at its ends, the author is the author without the
  whitespace at its ends, or \<open>Unknown\<close> when nothing is left, and the platform is that
  of the comment, or \<open>unknown\<close> when it is empty. So a text and a non-empty author with
  no whitespace at their ends are copied as they are.
\<close>

theorem fields_copied:
  assumes "comment ''text'' = Some (PStr t)" and "comment ''author'' = Some (PStr a)"
    and "comment ''likeCount'' = Some (PInt n)" and "comment ''platform'' = Some (PStr p)"
    and "comment ''publishedAt'' = Some d"
  shows "\<exists>r. analyze_comment U detect comment = Inr r
           \<and> publishedAt r = d \<and> likeCount r = n
           \<and> text r = py_strip U t
           \<and> author r = (if py_strip U a = [] then ustr ''Unknown'' else py_strip U a)
           \<and> platform r = (if p = [] then PStr (ustr ''unknown'') else PStr p)
           \<and> (trimmed U t \<longrightarrow> text r = t)
           \<and> (trimmed U a \<and> a \<noteq> [] \<longrightarrow> author r = a)"
proof -
  have "read_fields U comment =
          Inr (py_strip U t, py_strip U a, n, py_or (PStr p) (PStr (ustr ''unknown'')))"
    using assms by (simp add: read_fields_def py_get_def py_or_str py_or_int strip_val_def py_int_def)
  then show ?thesis
    using assms(5) by (auto simp add: analyze_comment_read py_get_default_def py_or_def py_strip_trimmed)
qed

theorem fields_copied_witness:
  "\<exists>r. analyze_comment ascii_rt detect_en sample_realfan = Inr r
       \<and> publishedAt r = PStr (ustr ''2023-01-03'') \<and> likeCount r = 30
       \<and> text r = ustr ''This changed my perspective.'' \<and> author r = ustr ''RealFan''
       \<and> platform r = PStr (ustr ''youtube'')"
  using fields_copied [of sample_realfan "ustr ''This changed my perspective.''" "ustr ''RealFan''" 30
      "ustr ''youtube''" "PStr (ustr ''2023-01-03'')" ascii_rt detect_en]
  by (simp add: sample_realfan_def trimmed_def str_defs char_defs) blast

lemma read_padded:
  "read_fields U padded_comment =
     Inr (ustr ''hello there'', ustr ''Alice'', 3, PStr (ustr ''youtube''))"
  by (simp add: padded_comment_def read_defs str_defs char_defs)

text \<open>
  The claim as stated fails on a text with a space at both ends: the text of the
  result is the text without them.
\<close>

theorem fields_copied_counterexample:
  "padded_comment ''text'' = Some (PStr (ustr '' hello there ''))
   \<and> map_sum id text (analyze_comment ascii_rt detect_en padded_comment) = Inr (ustr ''hello there'')
   \<and> ustr ''hello there'' \<noteq> ustr '' hello there ''"
  by (simp add: analyze_comment_read [OF read_padded]) (simp add: padded_comment_def ustr_def)

section \<open>Like counts in a CSV file\<close>

lemma int_of_abc: "int_of_str U (ustr ''abc'') = Inl ValueError"
  by (simp add: int_of_str_def plain_text_def parse_int_def str_defs char_defs)

lemma row_alice:
  "\<exists>c. comment_of_row U (likes_row ''alice'' ''first'' ''3'') = Inr c
       \<and> c ''likeCount'' = Some (PInt 3)"
  by (simp add: comment_of_row_def likes_row_def row_get_def py_or_def py_int_def int_of_str_def
      plain_text_def parse_int_def str_defs char_defs)

lemma row_bob: "comment_of_row U (likes_row ''bob'' ''hello'' ''abc'') = Inl ValueError"
  by (simp add: comment_of_row_def likes_row_def row_get_def py_or_def py_int_def int_of_str_def
      plain_text_def parse_int_def str_defs char_defs)

text \<open>
  C8 (the code does not do this). With a header, the like count of a row goes through
  \<^verbatim>\<open>int\<close> unguarded: on the row \<^verbatim>\<open>bob,hello,abc\<close> the conversion raises \<^verbatim>\<open>ValueError\<close>, no
  comment is made for the row, and the handler around the loop returns the comments
  made so far, so that the rows after it are lost as well. Of the three rows of the
  file only the first gives a comment.
\<close>

theorem csv_nonnumeric_likes:
  "comment_of_row U (likes_row ''bob'' ''hello'' ''abc'') = Inl ValueError
   \<and> map (\<lambda>c. c ''likeCount'') (fst (read_comments_csv U likes_file)) = [Some (PInt 3)]
   \<and> snd (read_comments_csv U likes_file) = Some ValueError"
proof -
  obtain c where c: "comment_of_row U (likes_row ''alice'' ''first'' ''3'') = Inr c"
    "c ''likeCount'' = Some (PInt 3)"
    using row_alice by blast
  have "read_comments_csv U likes_file = ([c], Some ValueError)"
    by (simp add: read_comments_csv_def likes_file_def c row_bob)
  then show ?thesis using c row_bob by simp
qed

text \<open>
  The branch for a file without field names guards the conversion with \<^verbatim>\<open>isdigit\<close>,
  and a like count that is missing from a row with a header is zero.
\<close>

lemma headerless_nonnumeric_likes:
  "\<exists>c. comment_of_line U (ustr ''bob,hello,2023-01-01,abc,youtube'') = Inr (Some c)
       \<and> c ''likeCount'' = Some (PInt 0)"
  by (simp add: comment_of_line_def str_defs char_defs)

lemma row_missing_likes:
  assumes "\<not> truthy (row_get row ''likeCount'')" and "\<not> truthy (row_get row ''likes'')"
  shows "\<exists>c. comment_of_row U row = Inr c \<and> c ''likeCount'' = Some (PInt 0)"
  using assms by (simp add: comment_of_row_def py_or_def py_int_def)

end
